theory Spec2Isabelle
  imports Complex_Main "HOL-Library.Log_Nat"
begin

section \<open>The order form of \<open>src/components/OrderForm.tsx\<close>\<close>

text \<open>
  The component is a Formik form validated by a Yup schema, with a child component whose
  effect derives \<open>pricePerKg\<close> from \<open>category\<close>, and a submit handler that logs the values
  together with a total price and resets the form. The file's own code (the price table,
  the schema, the seed values, \<open>calculatePrice\<close>, the effect, \<open>handleSubmit\<close>, the controls
  of the JSX) is translated definition by definition. What it calls in the JavaScript
  language and in the two libraries (number arithmetic, \<open>toFixed\<close>, property lookup, the
  tests of Yup, the validation and submission steps of Formik) is modelled beside it, each
  part marked as such.
\<close>

subsection \<open>JavaScript strings\<close>

text \<open>
  A JavaScript string is a sequence of UTF-16 code units and \<open>length\<close> counts code units.
  A code unit is a natural number here; \<open>ascii\<close> embeds a literal of ASCII characters.
\<close>

type_synonym jsstring = "nat list"

definition ascii :: "string \<Rightarrow> jsstring" where
  "ascii s = map of_char s"

subsection \<open>JavaScript numbers\<close>

text \<open>
  A number is an IEEE 754 binary64 value: a finite value (a rational; the two zeros are
  not told apart, nothing in the form observes the sign of a zero), an infinity
  (\<open>Infinity True\<close> is the negative one) or NaN. \<open>toDouble\<close> rounds a rational to the
  nearest binary64 value, ties to even, with gradual underflow and overflow to infinity;
  a numeric literal of the source and the product of two numbers are rounded by it.
\<close>

datatype number = Finite rat | Infinity bool | NaN

definition roundTiesToEven :: "rat \<Rightarrow> int" where
  "roundTiesToEven x =
     (let f = \<lfloor>x\<rfloor>; d = x - of_int f
      in if d < 1 / 2 then f else if 1 / 2 < d then f + 1 else if even f then f else f + 1)"

definition ilog2 :: "rat \<Rightarrow> int" where
  \<comment> \<open>for \<open>0 < x\<close>: the \<open>e\<close> with \<open>2\<^sup>e \<le> x < 2\<^sup>e\<^sup>+\<^sup>1\<close>\<close>
  "ilog2 x =
     (let (a, b) = quotient_of x; d = bitlen a - bitlen b
      in if power_int 2 d \<le> x then d else d - 1)"

definition fl :: "rat \<Rightarrow> rat" where
  "fl x =
     (if x = 0 then 0
      else let a = \<bar>x\<bar>; e = max (ilog2 a) (- 1022); q = power_int 2 (e - 52)
           in sgn x * of_int (roundTiesToEven (a / q)) * q)"

definition toDouble :: "rat \<Rightarrow> number" where
  "toDouble x =
     (let y = fl x in if of_int (2 ^ 1024) \<le> \<bar>y\<bar> then Infinity (y < 0) else Finite y)"

fun multiply :: "number \<Rightarrow> number \<Rightarrow> number" where
  "multiply NaN _ = NaN"
| "multiply _ NaN = NaN"
| "multiply (Finite a) (Finite b) = toDouble (a * b)"
| "multiply (Finite a) (Infinity s) = (if a = 0 then NaN else Infinity (s \<noteq> (a < 0)))"
| "multiply (Infinity s) (Finite b) = (if b = 0 then NaN else Infinity (s \<noteq> (b < 0)))"
| "multiply (Infinity s) (Infinity t) = Infinity (s \<noteq> t)"

fun greaterEqual :: "number \<Rightarrow> number \<Rightarrow> bool" where
  \<comment> \<open>\<open>x >= y\<close> on numbers; false when either side is NaN\<close>
  "greaterEqual NaN _ = False"
| "greaterEqual _ NaN = False"
| "greaterEqual (Finite a) (Finite b) = (b \<le> a)"
| "greaterEqual (Finite a) (Infinity s) = s"
| "greaterEqual (Infinity s) (Finite b) = (\<not> s)"
| "greaterEqual (Infinity s) (Infinity t) = (if s then t else True)"

subsection \<open>Number to text: \<open>Number.prototype.toFixed\<close>\<close>

function decimal :: "int \<Rightarrow> jsstring" where
  "decimal n = (if n < 10 then [48 + nat n] else decimal (n div 10) @ [48 + nat (n mod 10)])"
  by pat_completeness auto
termination
  by (relation "measure nat") auto

declare decimal.simps [simp del]

text \<open>
  \<open>toFixed\<close> hands a value from \<open>10\<^sup>2\<^sup>1\<close> on to \<open>Number::toString\<close>, which writes it in
  exponent notation with the fewest digits \<open>s\<close> (\<open>k\<close> of them) such that
  \<open>s \<times> 10\<^sup>n\<^sup>-\<^sup>k\<close> still rounds to the value. \<open>shortest\<close> searches \<open>k = 1, 2, \<dots>, 17\<close>.
\<close>

definition candidates :: "nat \<Rightarrow> rat \<Rightarrow> (nat \<times> int) list" where
  "candidates k x =
     (let n0 = length (decimal \<lfloor>x\<rfloor>)
      in [(n, s). n \<leftarrow> [n0, n0 + 1],
                  s \<leftarrow> [\<lfloor>x / 10 ^ (n - k)\<rfloor>, \<lfloor>x / 10 ^ (n - k)\<rfloor> + 1],
                  10 ^ (k - 1) \<le> s \<and> s < 10 ^ k \<and> toDouble (of_int s * 10 ^ (n - k)) = Finite x])"

fun closest :: "nat \<Rightarrow> rat \<Rightarrow> (nat \<times> int) list \<Rightarrow> (nat \<times> int) option" where
  "closest k x [] = None"
| "closest k x ((n, s) # cs) =
     (case closest k x cs of
        None \<Rightarrow> Some (n, s)
      | Some (n', s') \<Rightarrow>
          (let d = \<bar>of_int s * 10 ^ (n - k) - x\<bar>; d' = \<bar>of_int s' * 10 ^ (n' - k) - x\<bar>
           in if d < d' \<or> (d = d' \<and> even s) then Some (n, s) else Some (n', s')))"

fun shortest :: "nat \<Rightarrow> nat \<Rightarrow> rat \<Rightarrow> (nat \<times> nat \<times> int) option" where
  "shortest 0 k x = None"
| "shortest (Suc fuel) k x =
     (case closest k x (candidates k x) of
        Some (n, s) \<Rightarrow> Some (n, k, s)
      | None \<Rightarrow> shortest fuel (Suc k) x)"

definition exponential :: "rat \<Rightarrow> jsstring" where
  \<comment> \<open>\<open>Number::toString\<close> of a finite value \<open>x \<ge> 10\<^sup>2\<^sup>1\<close>\<close>
  "exponential x =
     (case shortest 17 1 x of
        None \<Rightarrow> []
      | Some (n, k, s) \<Rightarrow>
          (let ds = decimal s; e = ascii ''e+'' @ decimal (int n - 1)
           in if k = 1 then ds @ e else take 1 ds @ ascii ''.'' @ drop 1 ds @ e))"

definition toFixed :: "nat \<Rightarrow> number \<Rightarrow> jsstring" where
  \<comment> \<open>\<open>x.toFixed(f)\<close>; the form calls it with \<open>f = 2\<close> only, the RangeError for
      \<open>f > 100\<close> is left out\<close>
  "toFixed f x =
     (case x of
        NaN \<Rightarrow> ascii ''NaN''
      | Infinity s \<Rightarrow> (if s then ascii ''-Infinity'' else ascii ''Infinity'')
      | Finite r \<Rightarrow>
          (let sign = (if r < 0 then ascii ''-'' else []); a = \<bar>r\<bar>
           in if 10 ^ 21 \<le> a then sign @ exponential a
              else let n = \<lfloor>a * 10 ^ f + 1 / 2\<rfloor>;
                       m = decimal n;
                       z = (if length m \<le> f then replicate (f + 1 - length m) 48 @ m else m)
                   in if f = 0 then sign @ m
                      else sign @ take (length z - f) z @ ascii ''.'' @ drop (length z - f) z))"

subsection \<open>Values of the two numeric fields, property lookup\<close>

text \<open>
  \<open>weight\<close> and \<open>pricePerKg\<close> are declared \<open>number\<close>, but at run time they also hold what
  the form puts there: the empty string (Formik stores \<open>''\<close> when the number input does not
  parse) and the result of a lookup in the price table that found no price.
  A property read \<open>o[k]\<close> on an object literal gives the own property, otherwise the member
  of that name inherited from \<open>Object.prototype\<close>, otherwise \<open>undefined\<close>. \<open>Inherited k\<close> is
  such a member; it is no number, and where it is coerced or cast to one the result is
  taken to be NaN. (Most of these members are functions, and what a form library stores
  when it is handed a function depends on its version; no state the controls can reach
  holds one.)
\<close>

datatype jsvalue = Undefined | Number number | EmptyString | Inherited jsstring

definition ObjectPrototype :: "jsstring list" where
  \<comment> \<open>the property names of \<open>Object.prototype\<close> (ECMA-262, 20.1.3 and B.2.2)\<close>
  "ObjectPrototype =
     [ascii ''constructor'', ascii ''hasOwnProperty'', ascii ''isPrototypeOf'',
      ascii ''propertyIsEnumerable'', ascii ''toLocaleString'', ascii ''toString'',
      ascii ''valueOf'', ascii ''__proto__'', ascii ''__defineGetter__'',
      ascii ''__defineSetter__'', ascii ''__lookupGetter__'', ascii ''__lookupSetter__'']"

definition getProperty :: "(jsstring \<times> number) list \<Rightarrow> jsstring \<Rightarrow> jsvalue" where
  "getProperty obj k =
     (case map_of obj k of
        Some n \<Rightarrow> Number n
      | None \<Rightarrow> if k \<in> set ObjectPrototype then Inherited k else Undefined)"

fun toNumber :: "jsvalue \<Rightarrow> number" where
  \<comment> \<open>the coercion the operator \<open>*\<close> applies to an operand\<close>
  "toNumber Undefined = NaN"
| "toNumber (Number n) = n"
| "toNumber EmptyString = Finite 0"
| "toNumber (Inherited k) = NaN"

subsection \<open>The price table, the form values, the price formula\<close>

definition categoryPrices :: "(jsstring \<times> number) list" where
  "categoryPrices =
     [(ascii ''Amazon cat A'', Finite 20),
      (ascii ''Amazon cat B'', Finite 25),
      (ascii ''Aliexpress'', Finite 35),
      (ascii ''Temu'', Finite 50)]"

text \<open>
  The record is the interface \<open>FormValues\<close>. It is polymorphic in the type of a text value:
  the form holds strings, and the object Formik hands to the schema holds a string or
  \<open>undefined\<close> in the same places. \<open>delivery\<close> and the elements of \<open>restrictions\<close> are union
  types of string literals in the source, strings at run time.
\<close>

record 's Values =
  username :: 's
  tel :: 's
  email :: 's
  delivery :: 's
  restrictions :: "'s list"
  deliveryTime :: 's
  message :: 's
  weight :: jsvalue
  pricePerKg :: jsvalue
  category :: 's

type_synonym FormValues = "jsstring Values"

definition initialFormValues :: FormValues where
  \<comment> \<open>the \<open>username\<close> is six Cyrillic letters: U+0420, U+0443, U+0441, U+043B, U+0430,
      U+043D\<close>
  "initialFormValues =
     \<lparr>username = [1056, 1091, 1089, 1083, 1072, 1085],
      tel = ascii ''232342432424'',
      email = ascii ''youremail@mail.com'',
      delivery = ascii ''pickup'',
      restrictions = [],
      deliveryTime = ascii ''afternoon'',
      message = [],
      weight = Number (Finite 1),
      pricePerKg = Number (Finite 0),
      category = []\<rparr>"

definition calculatePrice :: "jsvalue \<Rightarrow> jsvalue \<Rightarrow> jsstring" where
  "calculatePrice w p = toFixed 2 (multiply (toNumber w) (toNumber p))"

subsection \<open>The effect of \<open>PriceCalculator\<close>\<close>

definition PriceCalculator_effect :: "FormValues \<Rightarrow> FormValues" where
  \<comment> \<open>the callback given to \<open>useEffect\<close>; \<open>setFieldValue\<close> writes one field\<close>
  "PriceCalculator_effect v =
     (if category v \<noteq> []
      then v\<lparr>pricePerKg := getProperty categoryPrices (category v)\<rparr>
      else v\<lparr>pricePerKg := Number (Finite 0)\<rparr>)"

subsection \<open>Yup: the tests the schema uses\<close>

text \<open>
  Modelled after yup 1.x; the library is a dependency of the repository, not part of it.
  A schema validates a value in two rounds. The first has the type check, the presence
  check of \<open>required\<close> and the \<open>oneOf\<close> list; when one of them fails, the second round is not
  run. The second has the other tests, in the order of the chain. Every test but the
  presence check passes on \<open>undefined\<close>. With \<open>abortEarly: false\<close>, which Formik sets, all
  errors of all fields are collected. An error carries the path of the value, the name of
  the test and the message.
\<close>

datatype path = Key string | Index string nat

datatype testName = YupTypeError | YupRequired | YupOneOf | YupMin | YupMax | YupEmail

datatype errorMessage = Message jsstring | DefaultMessage

datatype ValidationError =
  ValidationError (path: path) (test: testName) (errorMessage: errorMessage)

datatype stringTest =
    min_length nat jsstring
  | max_length nat jsstring
  | email_shape jsstring
  | oneOf "jsstring list"
  | required_string jsstring

datatype numberTest =
    min_number number jsstring
  | required_number jsstring

definition alnum :: "nat \<Rightarrow> bool" where
  "alnum c = ((48 \<le> c \<and> c \<le> 57) \<or> (65 \<le> c \<and> c \<le> 90) \<or> (97 \<le> c \<and> c \<le> 122))"

definition localChar :: "nat \<Rightarrow> bool" where
  \<comment> \<open>the class before the \<open>@\<close>: letters, digits and \<open>.!#$%&'*+/=?^_`{|}~-\<close>\<close>
  "localChar c = (alnum c \<or> c \<in> set (ascii ''.!#$%&*+/=?^_{|}~-'') \<or> c = 39 \<or> c = 96)"

definition label :: "jsstring \<Rightarrow> bool" where
  \<comment> \<open>\<open>[a-zA-Z0-9](?:[a-zA-Z0-9-]{0,61}[a-zA-Z0-9])?\<close>\<close>
  "label l =
     (l \<noteq> [] \<and> length l \<le> 63 \<and> alnum (hd l) \<and> alnum (last l) \<and>
      list_all (\<lambda>c. alnum c \<or> c = 45) l)"

fun splitOn :: "nat \<Rightarrow> jsstring \<Rightarrow> jsstring list" where
  "splitOn d [] = [] # []"
| "splitOn d (c # cs) =
     (if c = d then [] # splitOn d cs
      else case splitOn d cs of [] \<Rightarrow> [c] # [] | l # ls \<Rightarrow> (c # l) # ls)"

definition rEmail :: "jsstring \<Rightarrow> bool" where
  \<comment> \<open>the pattern of \<open>string().email()\<close>: one or more characters of the local class,
      \<open>@\<close>, labels separated by dots\<close>
  "rEmail s =
     (let l = takeWhile (\<lambda>c. c \<noteq> 64) s; r = dropWhile (\<lambda>c. c \<noteq> 64) s
      in l \<noteq> [] \<and> list_all localChar l \<and> r \<noteq> [] \<and> list_all label (splitOn 46 (tl r)))"

fun firstRound :: "path \<Rightarrow> jsstring \<Rightarrow> stringTest \<Rightarrow> ValidationError list" where
  "firstRound p s (oneOf vs) = (if s \<in> set vs then [] else [ValidationError p YupOneOf DefaultMessage])"
| "firstRound p s _ = []"

fun secondRound :: "path \<Rightarrow> jsstring \<Rightarrow> stringTest \<Rightarrow> ValidationError list" where
  "secondRound p s (min_length n m) = (if n \<le> length s then [] else [ValidationError p YupMin (Message m)])"
| "secondRound p s (max_length n m) = (if length s \<le> n then [] else [ValidationError p YupMax (Message m)])"
| "secondRound p s (email_shape m) =
     (if s = [] \<or> rEmail s then [] else [ValidationError p YupEmail (Message m)])"
| "secondRound p s (required_string m) = (if s \<noteq> [] then [] else [ValidationError p YupRequired (Message m)])"
| "secondRound p s (oneOf vs) = []"

fun absentString :: "path \<Rightarrow> stringTest \<Rightarrow> ValidationError list" where
  "absentString p (required_string m) = [ValidationError p YupRequired (Message m)]"
| "absentString p _ = []"

definition stringSchema :: "stringTest list \<Rightarrow> path \<Rightarrow> jsstring option \<Rightarrow> ValidationError list" where
  \<comment> \<open>\<open>Yup.string()\<close> followed by the tests of the chain\<close>
  "stringSchema ts p v =
     (case v of
        None \<Rightarrow> concat (map (absentString p) ts)
      | Some s \<Rightarrow>
          (let es = concat (map (firstRound p s) ts)
           in if es \<noteq> [] then es else concat (map (secondRound p s) ts)))"

fun castNumber :: "jsvalue \<Rightarrow> number option" where
  \<comment> \<open>the cast of \<open>Yup.number()\<close>: \<open>undefined\<close> stays, the empty string and a value that
      is no number become NaN\<close>
  "castNumber Undefined = None"
| "castNumber (Number n) = Some n"
| "castNumber EmptyString = Some NaN"
| "castNumber (Inherited k) = Some NaN"

fun absentNumber :: "path \<Rightarrow> numberTest \<Rightarrow> ValidationError list" where
  "absentNumber p (required_number m) = [ValidationError p YupRequired (Message m)]"
| "absentNumber p _ = []"

fun numberRound :: "path \<Rightarrow> number \<Rightarrow> numberTest \<Rightarrow> ValidationError list" where
  "numberRound p x (min_number n m) = (if greaterEqual x n then [] else [ValidationError p YupMin (Message m)])"
| "numberRound p x (required_number m) = []"

definition numberSchema :: "numberTest list \<Rightarrow> path \<Rightarrow> jsvalue \<Rightarrow> ValidationError list" where
  \<comment> \<open>\<open>Yup.number()\<close> followed by the tests of the chain\<close>
  "numberSchema ts p v =
     (case castNumber v of
        None \<Rightarrow> concat (map (absentNumber p) ts)
      | Some NaN \<Rightarrow> [ValidationError p YupTypeError DefaultMessage]
      | Some x \<Rightarrow> concat (map (numberRound p x) ts))"

definition arrayOf :: "stringTest list \<Rightarrow> string \<Rightarrow> jsstring option list \<Rightarrow> ValidationError list" where
  \<comment> \<open>\<open>Yup.array().of(Yup.string()...)\<close>: every element against the inner schema, at the
      path \<open>name[i]\<close>\<close>
  "arrayOf ts name vs = concat (map (\<lambda>(i, v). stringSchema ts (Index name i) v) (enumerate 0 vs))"

subsection \<open>The schema\<close>

definition OrderSchema :: "jsstring option Values \<Rightarrow> ValidationError list" where
  \<comment> \<open>the literal \<open>0.1\<close> is the binary64 number nearest to 1/10; the last letter of the
      message of \<open>pricePerKg\<close> is U+0142\<close>
  "OrderSchema v =
     stringSchema [min_length 2 (ascii ''Too Short!''), required_string (ascii ''Required'')]
       (Key ''username'') (username v) @
     stringSchema [min_length 5 (ascii ''Too Short!''), required_string (ascii ''Required'')]
       (Key ''tel'') (tel v) @
     stringSchema [email_shape (ascii ''Invalid email''), required_string (ascii ''Required'')]
       (Key ''email'') (email v) @
     stringSchema [oneOf [ascii ''pickup'', ascii ''courier'', ascii ''drone''],
              required_string (ascii ''Required'')]
       (Key ''delivery'') (delivery v) @
     arrayOf [oneOf [ascii ''vegan'', ascii ''gluten-free'', ascii ''nut-free'']]
       ''restrictions'' (restrictions v) @
     stringSchema [required_string (ascii ''Required'')] (Key ''deliveryTime'') (deliveryTime v) @
     stringSchema [max_length 200 (ascii ''Too long!'')] (Key ''message'') (message v) @
     numberSchema [min_number (toDouble (1 / 10)) (ascii ''Min 0.1kg''),
              required_number (ascii ''Required'')]
       (Key ''weight'') (weight v) @
     numberSchema [min_number (toDouble (1 / 10)) (ascii ''Min 0.1 z'' @ [322]),
              required_number (ascii ''Required'')]
       (Key ''pricePerKg'') (pricePerKg v) @
     stringSchema [required_string (ascii ''Required'')] (Key ''category'') (category v)"

subsection \<open>Formik: validation, error messages, submission\<close>

text \<open>
  Modelled after formik 2.x. Before the values go to the schema, every empty string in
  them (also inside an array) is replaced by \<open>undefined\<close>. The errors of the schema become
  one message for each path, the first one found; \<open><ErrorMessage name=...>\<close> shows the
  message of its field once the field is touched, and an attempt to submit touches every
  field. \<open>onSubmit\<close> is called only when the schema reports no error.
\<close>

definition emptyToUndefined :: "jsstring \<Rightarrow> jsstring option" where
  "emptyToUndefined s = (if s = [] then None else Some s)"

definition prepareDataForValidation :: "FormValues \<Rightarrow> jsstring option Values" where
  "prepareDataForValidation v =
     \<lparr>username = emptyToUndefined (username v),
      tel = emptyToUndefined (tel v),
      email = emptyToUndefined (email v),
      delivery = emptyToUndefined (delivery v),
      restrictions = map emptyToUndefined (restrictions v),
      deliveryTime = emptyToUndefined (deliveryTime v),
      message = emptyToUndefined (message v),
      weight = (if weight v = EmptyString then Undefined else weight v),
      pricePerKg = (if pricePerKg v = EmptyString then Undefined else pricePerKg v),
      category = emptyToUndefined (category v)\<rparr>"

definition validateYupSchema :: "FormValues \<Rightarrow> ValidationError list" where
  "validateYupSchema v = OrderSchema (prepareDataForValidation v)"

definition yupToFormErrors :: "ValidationError list \<Rightarrow> path \<Rightarrow> errorMessage option" where
  "yupToFormErrors es = map_of (map (\<lambda>e. (path e, errorMessage e)) es)"

definition errorSlots :: "string list" where
  \<comment> \<open>the names that have an \<open><ErrorMessage>\<close> in the JSX\<close>
  "errorSlots =
     [''username'', ''tel'', ''email'', ''weight'', ''category'', ''delivery'',
      ''deliveryTime'', ''message'']"

definition ErrorMessage :: "string \<Rightarrow> FormValues \<Rightarrow> errorMessage option" where
  \<comment> \<open>what the slot of a touched field shows; \<open>None\<close>: nothing\<close>
  "ErrorMessage name v =
     (if name \<in> set errorSlots then yupToFormErrors (validateYupSchema v) (Key name) else None)"

subsection \<open>The form: state, events, submission\<close>

record 's Payload = "'s Values" +
  totalPrice :: jsstring

text \<open>
  The state of the mounted component: the values Formik holds, the dependency the effect
  of \<open>PriceCalculator\<close> saw when it last ran (\<open>None\<close> before the first run), and what has
  been written to the console.
\<close>

record Form =
  formValues :: FormValues
  deps :: "jsstring option"
  console :: "jsstring Payload list"

definition handleSubmit :: "FormValues \<Rightarrow> Form \<Rightarrow> Form" where
  \<comment> \<open>\<open>console.log({...values, totalPrice: ...})\<close>, then \<open>resetForm()\<close>, which puts the
      \<open>initialValues\<close> of the \<open><Formik>\<close> element back\<close>
  "handleSubmit v f =
     f\<lparr>console := console f @
          [\<lparr>username = username v, tel = tel v, email = email v, delivery = delivery v,
            restrictions = restrictions v, deliveryTime = deliveryTime v,
            message = message v, weight = weight v, pricePerKg = pricePerKg v,
            category = category v,
            totalPrice = calculatePrice (weight v) (pricePerKg v)\<rparr>],
       formValues := initialFormValues\<rparr>"

definition submitForm :: "Form \<Rightarrow> Form" where
  "submitForm f =
     (if validateYupSchema (formValues f) = [] then handleSubmit (formValues f) f else f)"

text \<open>
  The controls of the JSX: text inputs for \<open>username\<close>, \<open>tel\<close>, \<open>email\<close>, a number input for
  \<open>weight\<close>, selects for \<open>category\<close> and \<open>deliveryTime\<close>, radio buttons for \<open>delivery\<close>, a
  textarea for \<open>message\<close>, and the submit button. There is no control for \<open>restrictions\<close>
  and none for \<open>pricePerKg\<close>. A select or a radio group gives one of its options: a change
  to another string cannot happen and leaves the values as they are. A change of the
  number input carries the decimal number its text denotes, or \<open>None\<close> when it denotes none;
  Formik stores \<open>parseFloat\<close> of the text, and the empty string when that is NaN.
\<close>

definition categoryOptions :: "jsstring list" where
  \<comment> \<open>\<open><option value="">\<close> and one option for each of \<open>Object.keys(categoryPrices)\<close>\<close>
  "categoryOptions = [] # map fst categoryPrices"

definition deliveryTimeOptions :: "jsstring list" where
  "deliveryTimeOptions = [] # [ascii ''morning'', ascii ''afternoon'', ascii ''evening'']"

definition deliveryOptions :: "jsstring list" where
  "deliveryOptions = [ascii ''pickup'', ascii ''courier'', ascii ''drone'']"

datatype event =
    ChangeUsername jsstring
  | ChangeTel jsstring
  | ChangeEmail jsstring
  | ChangeWeight "rat option"
  | ChangeCategory jsstring
  | ChangeDelivery jsstring
  | ChangeDeliveryTime jsstring
  | ChangeMessage jsstring
  | Submit

fun handleChange :: "event \<Rightarrow> FormValues \<Rightarrow> FormValues" where
  "handleChange (ChangeUsername s) v = v\<lparr>username := s\<rparr>"
| "handleChange (ChangeTel s) v = v\<lparr>tel := s\<rparr>"
| "handleChange (ChangeEmail s) v = v\<lparr>email := s\<rparr>"
| "handleChange (ChangeWeight None) v = v\<lparr>weight := EmptyString\<rparr>"
| "handleChange (ChangeWeight (Some r)) v = v\<lparr>weight := Number (toDouble r)\<rparr>"
| "handleChange (ChangeCategory s) v = (if s \<in> set categoryOptions then v\<lparr>category := s\<rparr> else v)"
| "handleChange (ChangeDelivery s) v = (if s \<in> set deliveryOptions then v\<lparr>delivery := s\<rparr> else v)"
| "handleChange (ChangeDeliveryTime s) v =
     (if s \<in> set deliveryTimeOptions then v\<lparr>deliveryTime := s\<rparr> else v)"
| "handleChange (ChangeMessage s) v = v\<lparr>message := s\<rparr>"
| "handleChange Submit v = v"

definition flushEffects :: "Form \<Rightarrow> Form" where
  \<comment> \<open>\<open>useEffect(..., [values.category, setFieldValue])\<close>: after a render the callback
      runs when \<open>values.category\<close> differs from the one of its last run, and on mount;
      \<open>setFieldValue\<close> is the same function in every render\<close>
  "flushEffects f =
     (if deps f = Some (category (formValues f)) then f
      else f\<lparr>formValues := PriceCalculator_effect (formValues f),
             deps := Some (category (formValues f))\<rparr>)"

fun step :: "Form \<Rightarrow> event \<Rightarrow> Form" where
  "step f Submit = flushEffects (submitForm f)"
| "step f e = flushEffects (f\<lparr>formValues := handleChange e (formValues f)\<rparr>)"

definition mount :: Form where
  "mount = flushEffects \<lparr>formValues = initialFormValues, deps = None, console = []\<rparr>"

definition run :: "event list \<Rightarrow> Form" where
  \<comment> \<open>the state after the events, from the mounted form\<close>
  "run es = foldl step mount es"

subsection \<open>Notions used to state the properties\<close>

definition plainValues :: "FormValues \<Rightarrow> jsstring option Values" where
  \<comment> \<open>the values as an object for the schema, nothing replaced: \<open>OrderSchema\<close> on it is
      \<open>OrderSchema.validate(values, {abortEarly: false})\<close>\<close>
  "plainValues v =
     \<lparr>username = Some (username v), tel = Some (tel v), email = Some (email v),
      delivery = Some (delivery v), restrictions = map Some (restrictions v),
      deliveryTime = Some (deliveryTime v), message = Some (message v),
      weight = weight v, pricePerKg = pricePerKg v, category = Some (category v)\<rparr>"

definition errorsAt :: "path \<Rightarrow> ValidationError list \<Rightarrow> ValidationError list" where
  "errorsAt p es = filter (\<lambda>e. path e = p) es"

definition allowedRestrictions :: "jsstring list" where
  "allowedRestrictions = [ascii ''vegan'', ascii ''gluten-free'', ascii ''nut-free'']"

definition invariant :: "Form \<Rightarrow> bool" where
  "invariant f =
     (deps f = Some (category (formValues f)) \<and>
      category (formValues f) \<in> set categoryOptions \<and>
      pricePerKg (formValues f) =
        (if category (formValues f) = [] then Number (Finite 0)
         else getProperty categoryPrices (category (formValues f))))"

definition hundredths :: "rat \<Rightarrow> int" where
  \<comment> \<open>\<open>x\<close> rounded to a whole number of hundredths, a tie upwards\<close>
  "hundredths x = \<lfloor>100 * x + 1 / 2\<rfloor>"

definition twoPlaces :: "int \<Rightarrow> jsstring" where
  \<comment> \<open>\<open>n\<close> hundredths written with two decimal places\<close>
  "twoPlaces n =
     decimal (n div 100) @ ascii ''.'' @ [48 + nat (n mod 100 div 10), 48 + nat (n mod 10)]"

text \<open>The order of the example: the edits, and the values they lead to.\<close>

definition annEvents :: "event list" where
  "annEvents =
     [ChangeUsername (ascii ''Ann''), ChangeTel (ascii ''12345''),
      ChangeEmail (ascii ''a@b.com''), ChangeDelivery (ascii ''pickup''),
      ChangeDeliveryTime (ascii ''morning''), ChangeWeight (Some 2),
      ChangeCategory (ascii ''Temu'')]"

definition annValues :: FormValues where
  "annValues =
     \<lparr>username = ascii ''Ann'', tel = ascii ''12345'', email = ascii ''a@b.com'',
      delivery = ascii ''pickup'', restrictions = [], deliveryTime = ascii ''morning'',
      message = [], weight = Number (Finite 2), pricePerKg = Number (Finite 50),
      category = ascii ''Temu''\<rparr>"

text \<open>Edits that leave five fields invalid.\<close>

definition badEvents :: "event list" where
  "badEvents =
     [ChangeUsername (ascii ''A''), ChangeTel (ascii ''1234''),
      ChangeEmail (ascii ''not-an-email''), ChangeWeight (Some 0), ChangeDeliveryTime []]"

definition midnightValues :: FormValues where
  "midnightValues =
     initialFormValues
       \<lparr>deliveryTime := ascii ''midnight'', category := ascii ''Temu'',
        pricePerKg := Number (Finite 50)\<rparr>"

section \<open>Properties\<close>

subsection \<open>The derived price\<close>

lemma invariant_flushEffects:
  assumes "category (formValues f) \<in> set categoryOptions"
    and "pricePerKg (formValues f) =
           (if category (formValues f) = [] then Number (Finite 0)
            else getProperty categoryPrices (category (formValues f))) \<or>
         deps f \<noteq> Some (category (formValues f))"
  shows "invariant (flushEffects f)"
  using assms by (auto simp add: invariant_def flushEffects_def PriceCalculator_effect_def)

lemma invariant_mount: "invariant mount"
  unfolding mount_def
  by (rule invariant_flushEffects) (simp_all add: initialFormValues_def categoryOptions_def)

lemma handleChange_pricePerKg: "pricePerKg (handleChange e v) = pricePerKg v"
  by (cases "(e, v)" rule: handleChange.cases) auto

lemma handleChange_category:
  "category (handleChange e v) =
     (case e of ChangeCategory s \<Rightarrow> if s \<in> set categoryOptions then s else category v
      | _ \<Rightarrow> category v)"
  by (cases "(e, v)" rule: handleChange.cases) auto

lemma invariant_submitForm:
  assumes "invariant f"
  shows "invariant (flushEffects (submitForm f))"
proof (rule invariant_flushEffects)
  show "category (formValues (submitForm f)) \<in> set categoryOptions"
    using assms
    by (simp add: submitForm_def handleSubmit_def invariant_def initialFormValues_def
        categoryOptions_def)
  show "pricePerKg (formValues (submitForm f)) =
       (if category (formValues (submitForm f)) = [] then Number (Finite 0)
        else getProperty categoryPrices (category (formValues (submitForm f)))) \<or>
      deps (submitForm f) \<noteq> Some (category (formValues (submitForm f)))"
    using assms
    by (simp add: submitForm_def handleSubmit_def invariant_def initialFormValues_def)
qed

lemma invariant_step:
  assumes "invariant f"
  shows "invariant (step f e)"
proof (cases "e = Submit")
  case True
  with invariant_submitForm[OF assms] show ?thesis by simp
next
  case False
  then have st: "step f e = flushEffects (f\<lparr>formValues := handleChange e (formValues f)\<rparr>)"
    by (cases e) simp_all
  show ?thesis
    unfolding st
  proof (rule invariant_flushEffects)
    show "category (formValues (f\<lparr>formValues := handleChange e (formValues f)\<rparr>))
            \<in> set categoryOptions"
      using assms by (simp add: invariant_def handleChange_category split: event.splits)
    show "pricePerKg (formValues (f\<lparr>formValues := handleChange e (formValues f)\<rparr>)) =
       (if category (formValues (f\<lparr>formValues := handleChange e (formValues f)\<rparr>)) = []
        then Number (Finite 0)
        else getProperty categoryPrices
               (category (formValues (f\<lparr>formValues := handleChange e (formValues f)\<rparr>)))) \<or>
      deps (f\<lparr>formValues := handleChange e (formValues f)\<rparr>) \<noteq>
        Some (category (formValues (f\<lparr>formValues := handleChange e (formValues f)\<rparr>)))"
      using assms
      by (auto simp add: invariant_def handleChange_pricePerKg handleChange_category
          split: event.splits)
  qed
qed

lemma invariant_foldl: "invariant f \<Longrightarrow> invariant (foldl step f es)"
  by (induction es arbitrary: f) (simp_all add: invariant_step)

lemma invariant_run: "invariant (run es)"
  by (simp add: run_def invariant_foldl invariant_mount)

lemma getProperty_own: "map_of obj k = Some n \<Longrightarrow> getProperty obj k = Number n"
  by (simp add: getProperty_def)

lemma no_empty_key: "map_of categoryPrices [] = None"
  by (simp add: categoryPrices_def ascii_def)

lemma category_flushEffects: "category (formValues (flushEffects f)) = category (formValues f)"
  by (simp add: flushEffects_def PriceCalculator_effect_def)

lemma pricePerKg_after_option:
  assumes "c \<in> set categoryOptions"
  shows "pricePerKg (formValues (step (run es) (ChangeCategory c))) =
     (if c = [] then Number (Finite 0) else getProperty categoryPrices c)"
proof -
  define g where "g = step (run es) (ChangeCategory c)"
  have "category (formValues g) = c"
    using assms by (simp add: g_def category_flushEffects)
  moreover have "invariant g"
    unfolding g_def by (rule invariant_step[OF invariant_run])
  ultimately have "pricePerKg (formValues g) =
      (if c = [] then Number (Finite 0) else getProperty categoryPrices c)"
    by (simp add: invariant_def)
  then show ?thesis by (simp only: g_def)
qed

text \<open>
  C1. In every state the form reaches from its mount by edits and submissions, once the
  effect has run, \<open>pricePerKg\<close> is 0 when \<open>category\<close> is empty and the result of the lookup
  \<open>categoryPrices[category]\<close> otherwise, which is the price of the table for a category of
  the table. The category is always one of the options of its select, and no edit of a
  field writes \<open>pricePerKg\<close>.
\<close>

theorem pricePerKg_follows_category:
  "pricePerKg (formValues (run es)) =
     (if category (formValues (run es)) = [] then Number (Finite 0)
      else getProperty categoryPrices (category (formValues (run es)))) \<and>
   (map_of categoryPrices (category (formValues (run es))) = Some n \<longrightarrow>
      pricePerKg (formValues (run es)) = Number n) \<and>
   category (formValues (run es)) \<in> set categoryOptions \<and>
   pricePerKg (handleChange e v) = pricePerKg v"
proof (intro conjI impI)
  show "category (formValues (run es)) \<in> set categoryOptions"
    using invariant_run[of es] by (simp add: invariant_def)
  show eq: "pricePerKg (formValues (run es)) =
     (if category (formValues (run es)) = [] then Number (Finite 0)
      else getProperty categoryPrices (category (formValues (run es))))"
    using invariant_run[of es] by (simp add: invariant_def)
  show "pricePerKg (handleChange e v) = pricePerKg v"
    by (rule handleChange_pricePerKg)
  assume own: "map_of categoryPrices (category (formValues (run es))) = Some n"
  then have "category (formValues (run es)) \<noteq> []"
    using no_empty_key by auto
  with eq own show "pricePerKg (formValues (run es)) = Number n"
    by (simp add: getProperty_own)
qed

theorem pricePerKg_follows_category_witness:
  "map_of categoryPrices (category (formValues (run [ChangeCategory (ascii ''Temu'')]))) =
     Some (Finite 50) \<and>
   pricePerKg (formValues (run [ChangeCategory (ascii ''Temu'')])) = Number (Finite 50)"
proof -
  have h: "map_of categoryPrices (category (formValues (run [ChangeCategory (ascii ''Temu'')]))) =
     Some (Finite 50)"
    by code_simp
  have "pricePerKg (formValues (run [ChangeCategory (ascii ''Temu'')])) = Number (Finite 50)"
    using pricePerKg_follows_category[of "[ChangeCategory (ascii ''Temu'')]" "Finite 50"] h
    by blast
  with h show ?thesis by blast
qed

text \<open>
  C3. From any state the form has reached, choosing the category \<open>Amazon cat A\<close> sets
  \<open>pricePerKg\<close> to 20, \<open>Aliexpress\<close> to 35, \<open>Temu\<close> to 50, and choosing the empty option
  sets it to 0.
\<close>

theorem category_sets_pricePerKg:
  "pricePerKg (formValues (step (run es) (ChangeCategory (ascii ''Amazon cat A'')))) =
     Number (Finite 20) \<and>
   pricePerKg (formValues (step (run es) (ChangeCategory (ascii ''Aliexpress'')))) =
     Number (Finite 35) \<and>
   pricePerKg (formValues (step (run es) (ChangeCategory (ascii ''Temu'')))) =
     Number (Finite 50) \<and>
   pricePerKg (formValues (step (run es) (ChangeCategory []))) = Number (Finite 0)"
proof -
  have o: "ascii ''Amazon cat A'' \<in> set categoryOptions" "ascii ''Aliexpress'' \<in> set categoryOptions"
    "ascii ''Temu'' \<in> set categoryOptions" "[] \<in> set categoryOptions"
    by (simp_all add: categoryOptions_def categoryPrices_def)
  show ?thesis
    by (simp only: pricePerKg_after_option[OF o(1)] pricePerKg_after_option[OF o(2)]
        pricePerKg_after_option[OF o(3)] pricePerKg_after_option[OF o(4)])
      (simp add: getProperty_def categoryPrices_def ascii_def)
qed

subsection \<open>Errors of one path\<close>

lemma errorsAt_append [simp]: "errorsAt p (xs @ ys) = errorsAt p xs @ errorsAt p ys"
  by (simp add: errorsAt_def)

lemma errorsAt_Nil [simp]: "errorsAt p [] = []"
  by (simp add: errorsAt_def)

lemma errorsAt_nonempty: "errorsAt p es \<noteq> [] \<Longrightarrow> es \<noteq> []"
  by (auto simp add: errorsAt_def)

lemma errorsAt_all:
  "list_all (\<lambda>e. path e = q) es \<Longrightarrow> errorsAt p es = (if p = q then es else [])"
  by (induction es) (auto simp add: errorsAt_def)

lemma firstRound_path: "list_all (\<lambda>e. path e = p) (firstRound p s t)"
  by (cases t) simp_all

lemma secondRound_path: "list_all (\<lambda>e. path e = p) (secondRound p s t)"
  by (cases t) simp_all

lemma absentString_path: "list_all (\<lambda>e. path e = p) (absentString p t)"
  by (cases t) simp_all

lemma absentNumber_path: "list_all (\<lambda>e. path e = p) (absentNumber p t)"
  by (cases t) simp_all

lemma numberRound_path: "list_all (\<lambda>e. path e = p) (numberRound p x t)"
  by (cases t) simp_all

lemma list_all_concat_map: "(\<And>t. list_all P (f t)) \<Longrightarrow> list_all P (concat (map f ts))"
  by (induction ts) simp_all

lemma stringSchema_path: "list_all (\<lambda>e. path e = p) (stringSchema ts p v)"
  by (cases v)
    (simp_all add: stringSchema_def Let_def list_all_concat_map firstRound_path
      secondRound_path absentString_path)

lemma numberSchema_path: "list_all (\<lambda>e. path e = p) (numberSchema ts p v)"
  by (simp add: numberSchema_def list_all_concat_map absentNumber_path numberRound_path
      split: option.split number.split)

lemma errorsAt_stringSchema [simp]:
  "errorsAt p (stringSchema ts q v) = (if p = q then stringSchema ts q v else [])"
  by (rule errorsAt_all) (rule stringSchema_path)

lemma errorsAt_numberSchema [simp]:
  "errorsAt p (numberSchema ts q v) = (if p = q then numberSchema ts q v else [])"
  by (rule errorsAt_all) (rule numberSchema_path)

lemma errorsAt_enumerate:
  "errorsAt (Index name i)
     (concat (map (\<lambda>(j, v). stringSchema ts (Index name j) v) (enumerate k vs))) =
     (if k \<le> i \<and> i < k + length vs then stringSchema ts (Index name i) (vs ! (i - k))
      else [])"
proof (induction vs arbitrary: k)
  case Nil
  then show ?case by auto
next
  case (Cons v vs)
  show ?case
    by (auto simp add: Cons.IH nth_Cons' Suc_diff_le)
qed

lemma errorsAt_arrayOf_Index:
  "errorsAt (Index name i) (arrayOf ts name vs) =
     (if i < length vs then stringSchema ts (Index name i) (vs ! i) else [])"
  by (simp add: arrayOf_def errorsAt_enumerate)

lemma errorsAt_enumerate_Key:
  "errorsAt (Key n)
     (concat (map (\<lambda>(j, v). stringSchema ts (Index name j) v) (enumerate k vs))) = []"
  by (induction vs arbitrary: k) simp_all

lemma errorsAt_arrayOf_Key [simp]: "errorsAt (Key n) (arrayOf ts name vs) = []"
  by (simp add: arrayOf_def errorsAt_enumerate_Key)

lemma yupToFormErrors_errorsAt:
  "yupToFormErrors es p =
     (case errorsAt p es of [] \<Rightarrow> None | e # _ \<Rightarrow> Some (errorMessage e))"
  by (induction es) (auto simp add: yupToFormErrors_def errorsAt_def)

lemma ErrorMessage_eq:
  "name \<in> set errorSlots \<Longrightarrow>
   ErrorMessage name v =
     (case errorsAt (Key name) (validateYupSchema v) of
        [] \<Rightarrow> None
      | e # _ \<Rightarrow> Some (errorMessage e))"
  by (simp add: ErrorMessage_def yupToFormErrors_errorsAt)

lemma blocked: "errorsAt p (validateYupSchema (formValues f)) \<noteq> [] \<Longrightarrow> submitForm f = f"
  by (auto simp add: submitForm_def dest: errorsAt_nonempty)

subsection \<open>The schema, field by field\<close>

lemma OrderSchema_username:
  "errorsAt (Key ''username'') (OrderSchema x) =
     stringSchema [min_length 2 (ascii ''Too Short!''), required_string (ascii ''Required'')]
       (Key ''username'') (username x)"
  by (simp add: OrderSchema_def)

lemma OrderSchema_tel:
  "errorsAt (Key ''tel'') (OrderSchema x) =
     stringSchema [min_length 5 (ascii ''Too Short!''), required_string (ascii ''Required'')]
       (Key ''tel'') (tel x)"
  by (simp add: OrderSchema_def)

lemma OrderSchema_email:
  "errorsAt (Key ''email'') (OrderSchema x) =
     stringSchema [email_shape (ascii ''Invalid email''), required_string (ascii ''Required'')]
       (Key ''email'') (email x)"
  by (simp add: OrderSchema_def)

lemma OrderSchema_deliveryTime:
  "errorsAt (Key ''deliveryTime'') (OrderSchema x) =
     stringSchema [required_string (ascii ''Required'')] (Key ''deliveryTime'') (deliveryTime x)"
  by (simp add: OrderSchema_def)

lemma OrderSchema_message:
  "errorsAt (Key ''message'') (OrderSchema x) =
     stringSchema [max_length 200 (ascii ''Too long!'')] (Key ''message'') (message x)"
  by (simp add: OrderSchema_def)

lemma OrderSchema_weight:
  "errorsAt (Key ''weight'') (OrderSchema x) =
     numberSchema [min_number (toDouble (1 / 10)) (ascii ''Min 0.1kg''),
                   required_number (ascii ''Required'')] (Key ''weight'') (weight x)"
  by (simp add: OrderSchema_def)

lemma OrderSchema_pricePerKg:
  "errorsAt (Key ''pricePerKg'') (OrderSchema x) =
     numberSchema [min_number (toDouble (1 / 10)) (ascii ''Min 0.1 z'' @ [322]),
                   required_number (ascii ''Required'')] (Key ''pricePerKg'') (pricePerKg x)"
  by (simp add: OrderSchema_def)

lemma OrderSchema_category:
  "errorsAt (Key ''category'') (OrderSchema x) =
     stringSchema [required_string (ascii ''Required'')] (Key ''category'') (category x)"
  by (simp add: OrderSchema_def)

lemma OrderSchema_restrictions:
  "errorsAt (Index ''restrictions'' i) (OrderSchema x) =
     (if i < length (restrictions x)
      then stringSchema [oneOf allowedRestrictions] (Index ''restrictions'' i) (restrictions x ! i)
      else [])"
  by (simp add: OrderSchema_def errorsAt_arrayOf_Index allowedRestrictions_def)

lemma tenth: "toDouble (1 / 10) = Finite (3602879701896397 / 36028797018963968)"
  by code_simp

lemma emptyToUndefined_Some: "s \<noteq> [] \<Longrightarrow> emptyToUndefined s = Some s"
  by (simp add: emptyToUndefined_def)

lemma prepare_simps [simp]:
  "username (prepareDataForValidation v) = emptyToUndefined (username v)"
  "tel (prepareDataForValidation v) = emptyToUndefined (tel v)"
  "email (prepareDataForValidation v) = emptyToUndefined (email v)"
  "restrictions (prepareDataForValidation v) = map emptyToUndefined (restrictions v)"
  "deliveryTime (prepareDataForValidation v) = emptyToUndefined (deliveryTime v)"
  "message (prepareDataForValidation v) = emptyToUndefined (message v)"
  "weight (prepareDataForValidation v) = (if weight v = EmptyString then Undefined else weight v)"
  "pricePerKg (prepareDataForValidation v) =
     (if pricePerKg v = EmptyString then Undefined else pricePerKg v)"
  "category (prepareDataForValidation v) = emptyToUndefined (category v)"
  by (simp_all add: prepareDataForValidation_def)

lemma plain_simps [simp]:
  "username (plainValues v) = Some (username v)"
  "tel (plainValues v) = Some (tel v)"
  "email (plainValues v) = Some (email v)"
  "restrictions (plainValues v) = map Some (restrictions v)"
  "deliveryTime (plainValues v) = Some (deliveryTime v)"
  "message (plainValues v) = Some (message v)"
  "weight (plainValues v) = weight v"
  "pricePerKg (plainValues v) = pricePerKg v"
  "category (plainValues v) = Some (category v)"
  by (simp_all add: plainValues_def)

lemma username_short:
  assumes "length (username v) = 1"
  shows "errorsAt (Key ''username'') (validateYupSchema v) =
           [ValidationError (Key ''username'') YupMin (Message (ascii ''Too Short!''))]"
    and "errorsAt (Key ''username'') (OrderSchema (plainValues v)) =
           [ValidationError (Key ''username'') YupMin (Message (ascii ''Too Short!''))]"
proof -
  from assms have ne: "username v \<noteq> []" by auto
  show "errorsAt (Key ''username'') (validateYupSchema v) =
           [ValidationError (Key ''username'') YupMin (Message (ascii ''Too Short!''))]"
    using assms ne
    by (simp add: validateYupSchema_def OrderSchema_username emptyToUndefined_Some
        stringSchema_def)
  show "errorsAt (Key ''username'') (OrderSchema (plainValues v)) =
           [ValidationError (Key ''username'') YupMin (Message (ascii ''Too Short!''))]"
    using assms ne by (simp add: OrderSchema_username stringSchema_def)
qed

lemma tel_short:
  assumes "length (tel v) = 4"
  shows "errorsAt (Key ''tel'') (validateYupSchema v) =
           [ValidationError (Key ''tel'') YupMin (Message (ascii ''Too Short!''))]"
    and "errorsAt (Key ''tel'') (OrderSchema (plainValues v)) =
           [ValidationError (Key ''tel'') YupMin (Message (ascii ''Too Short!''))]"
proof -
  from assms have ne: "tel v \<noteq> []" by auto
  show "errorsAt (Key ''tel'') (validateYupSchema v) =
           [ValidationError (Key ''tel'') YupMin (Message (ascii ''Too Short!''))]"
    using assms ne
    by (simp add: validateYupSchema_def OrderSchema_tel emptyToUndefined_Some stringSchema_def)
  show "errorsAt (Key ''tel'') (OrderSchema (plainValues v)) =
           [ValidationError (Key ''tel'') YupMin (Message (ascii ''Too Short!''))]"
    using assms ne by (simp add: OrderSchema_tel stringSchema_def)
qed

lemma not_an_email: "\<not> rEmail (ascii ''not-an-email'')"
  by (simp add: rEmail_def ascii_def)

lemma email_invalid:
  assumes "email v = ascii ''not-an-email''"
  shows "errorsAt (Key ''email'') (validateYupSchema v) =
           [ValidationError (Key ''email'') YupEmail (Message (ascii ''Invalid email''))]"
    and "errorsAt (Key ''email'') (OrderSchema (plainValues v)) =
           [ValidationError (Key ''email'') YupEmail (Message (ascii ''Invalid email''))]"
proof -
  have ne: "ascii ''not-an-email'' \<noteq> []" by (simp add: ascii_def)
  show "errorsAt (Key ''email'') (validateYupSchema v) =
           [ValidationError (Key ''email'') YupEmail (Message (ascii ''Invalid email''))]"
    using assms ne not_an_email
    by (simp add: validateYupSchema_def OrderSchema_email emptyToUndefined_Some stringSchema_def)
  show "errorsAt (Key ''email'') (OrderSchema (plainValues v)) =
           [ValidationError (Key ''email'') YupEmail (Message (ascii ''Invalid email''))]"
    using assms ne not_an_email by (simp add: OrderSchema_email stringSchema_def)
qed

lemma weight_zero:
  assumes "weight v = Number (Finite 0)"
  shows "errorsAt (Key ''weight'') (validateYupSchema v) =
           [ValidationError (Key ''weight'') YupMin (Message (ascii ''Min 0.1kg''))]"
    and "errorsAt (Key ''weight'') (OrderSchema (plainValues v)) =
           [ValidationError (Key ''weight'') YupMin (Message (ascii ''Min 0.1kg''))]"
  using assms
  by (simp_all add: validateYupSchema_def OrderSchema_weight numberSchema_def tenth)

lemma deliveryTime_errors:
  "errorsAt (Key ''deliveryTime'') (validateYupSchema v) =
     (if deliveryTime v = []
      then [ValidationError (Key ''deliveryTime'') YupRequired (Message (ascii ''Required''))]
      else [])"
  "errorsAt (Key ''deliveryTime'') (OrderSchema (plainValues v)) =
     (if deliveryTime v = []
      then [ValidationError (Key ''deliveryTime'') YupRequired (Message (ascii ''Required''))]
      else [])"
  by (simp_all add: validateYupSchema_def OrderSchema_deliveryTime stringSchema_def
      emptyToUndefined_def)

lemma category_errors:
  "errorsAt (Key ''category'') (validateYupSchema v) =
     (if category v = []
      then [ValidationError (Key ''category'') YupRequired (Message (ascii ''Required''))]
      else [])"
  "errorsAt (Key ''category'') (OrderSchema (plainValues v)) =
     (if category v = []
      then [ValidationError (Key ''category'') YupRequired (Message (ascii ''Required''))]
      else [])"
  by (simp_all add: validateYupSchema_def OrderSchema_category stringSchema_def
      emptyToUndefined_def)

lemma restrictions_errors:
  "errorsAt (Index ''restrictions'' i) (OrderSchema (plainValues v)) =
     (if i < length (restrictions v) \<and> restrictions v ! i \<notin> set allowedRestrictions
      then [ValidationError (Index ''restrictions'' i) YupOneOf DefaultMessage] else [])"
  by (simp add: OrderSchema_restrictions stringSchema_def)

lemma restrictions_Key: "errorsAt (Key ''restrictions'') (OrderSchema x) = []"
  by (simp add: OrderSchema_def)

subsection \<open>Rejected input\<close>

text \<open>
  C5. Each of these inputs fails the validation of the schema, has its message shown in
  the error slot of its field, and keeps \<open>onSubmit\<close> from being called: a \<open>username\<close> of
  length 1, a \<open>tel\<close> of length 4, the \<open>email\<close> \<open>not-an-email\<close>, the \<open>weight\<close> 0, an empty
  \<open>deliveryTime\<close>.
\<close>

theorem invalid_fields_block_submission:
  "(length (username (formValues f)) = 1 \<longrightarrow>
      errorsAt (Key ''username'') (OrderSchema (plainValues (formValues f))) \<noteq> [] \<and>
      ErrorMessage ''username'' (formValues f) = Some (Message (ascii ''Too Short!'')) \<and>
      submitForm f = f) \<and>
   (length (tel (formValues f)) = 4 \<longrightarrow>
      errorsAt (Key ''tel'') (OrderSchema (plainValues (formValues f))) \<noteq> [] \<and>
      ErrorMessage ''tel'' (formValues f) = Some (Message (ascii ''Too Short!'')) \<and>
      submitForm f = f) \<and>
   (email (formValues f) = ascii ''not-an-email'' \<longrightarrow>
      errorsAt (Key ''email'') (OrderSchema (plainValues (formValues f))) \<noteq> [] \<and>
      ErrorMessage ''email'' (formValues f) = Some (Message (ascii ''Invalid email'')) \<and>
      submitForm f = f) \<and>
   (weight (formValues f) = Number (Finite 0) \<longrightarrow>
      errorsAt (Key ''weight'') (OrderSchema (plainValues (formValues f))) \<noteq> [] \<and>
      ErrorMessage ''weight'' (formValues f) = Some (Message (ascii ''Min 0.1kg'')) \<and>
      submitForm f = f) \<and>
   (deliveryTime (formValues f) = [] \<longrightarrow>
      errorsAt (Key ''deliveryTime'') (OrderSchema (plainValues (formValues f))) \<noteq> [] \<and>
      ErrorMessage ''deliveryTime'' (formValues f) = Some (Message (ascii ''Required'')) \<and>
      submitForm f = f)"
proof (intro conjI impI)
  assume h: "length (username (formValues f)) = 1"
  show "errorsAt (Key ''username'') (OrderSchema (plainValues (formValues f))) \<noteq> []"
    by (simp add: username_short(2)[OF h])
  show "ErrorMessage ''username'' (formValues f) = Some (Message (ascii ''Too Short!''))"
    by (simp add: ErrorMessage_eq errorSlots_def username_short(1)[OF h])
  show "submitForm f = f"
    by (rule blocked[of "Key ''username''"]) (simp add: username_short(1)[OF h])
next
  assume h: "length (tel (formValues f)) = 4"
  show "errorsAt (Key ''tel'') (OrderSchema (plainValues (formValues f))) \<noteq> []"
    by (simp add: tel_short(2)[OF h])
  show "ErrorMessage ''tel'' (formValues f) = Some (Message (ascii ''Too Short!''))"
    by (simp add: ErrorMessage_eq errorSlots_def tel_short(1)[OF h])
  show "submitForm f = f"
    by (rule blocked[of "Key ''tel''"]) (simp add: tel_short(1)[OF h])
next
  assume h: "email (formValues f) = ascii ''not-an-email''"
  show "errorsAt (Key ''email'') (OrderSchema (plainValues (formValues f))) \<noteq> []"
    by (simp add: email_invalid(2)[OF h])
  show "ErrorMessage ''email'' (formValues f) = Some (Message (ascii ''Invalid email''))"
    by (simp add: ErrorMessage_eq errorSlots_def email_invalid(1)[OF h])
  show "submitForm f = f"
    by (rule blocked[of "Key ''email''"]) (simp add: email_invalid(1)[OF h])
next
  assume h: "weight (formValues f) = Number (Finite 0)"
  show "errorsAt (Key ''weight'') (OrderSchema (plainValues (formValues f))) \<noteq> []"
    by (simp add: weight_zero(2)[OF h])
  show "ErrorMessage ''weight'' (formValues f) = Some (Message (ascii ''Min 0.1kg''))"
    by (simp add: ErrorMessage_eq errorSlots_def weight_zero(1)[OF h])
  show "submitForm f = f"
    by (rule blocked[of "Key ''weight''"]) (simp add: weight_zero(1)[OF h])
next
  assume h: "deliveryTime (formValues f) = []"
  show "errorsAt (Key ''deliveryTime'') (OrderSchema (plainValues (formValues f))) \<noteq> []"
    by (simp add: deliveryTime_errors(2) h)
  show "ErrorMessage ''deliveryTime'' (formValues f) = Some (Message (ascii ''Required''))"
    by (simp add: ErrorMessage_eq errorSlots_def deliveryTime_errors(1) h)
  show "submitForm f = f"
    by (rule blocked[of "Key ''deliveryTime''"]) (simp add: deliveryTime_errors(1) h)
qed

theorem invalid_fields_block_submission_witness:
  "length (username (formValues (run badEvents))) = 1 \<and>
   length (tel (formValues (run badEvents))) = 4 \<and>
   email (formValues (run badEvents)) = ascii ''not-an-email'' \<and>
   weight (formValues (run badEvents)) = Number (Finite 0) \<and>
   deliveryTime (formValues (run badEvents)) = [] \<and>
   ErrorMessage ''username'' (formValues (run badEvents)) = Some (Message (ascii ''Too Short!'')) \<and>
   ErrorMessage ''tel'' (formValues (run badEvents)) = Some (Message (ascii ''Too Short!'')) \<and>
   ErrorMessage ''email'' (formValues (run badEvents)) = Some (Message (ascii ''Invalid email'')) \<and>
   ErrorMessage ''weight'' (formValues (run badEvents)) = Some (Message (ascii ''Min 0.1kg'')) \<and>
   ErrorMessage ''deliveryTime'' (formValues (run badEvents)) = Some (Message (ascii ''Required'')) \<and>
   submitForm (run badEvents) = run badEvents"
proof -
  have h: "length (username (formValues (run badEvents))) = 1"
    "length (tel (formValues (run badEvents))) = 4"
    "email (formValues (run badEvents)) = ascii ''not-an-email''"
    "weight (formValues (run badEvents)) = Number (Finite 0)"
    "deliveryTime (formValues (run badEvents)) = []"
    by code_simp+
  from invalid_fields_block_submission[of "run badEvents"] h show ?thesis
    by blast
qed

subsection \<open>Delivery time, restrictions, message\<close>

text \<open>
  C6, as the code has it. The schema asks of \<open>deliveryTime\<close> only that it is present:
  validation reports an error for \<open>deliveryTime\<close> exactly when it is the empty string, the
  error of \<open>required\<close>, and accepts every other string. The three values \<open>morning\<close>,
  \<open>afternoon\<close>, \<open>evening\<close> are the options of the select, not a rule of the schema.
\<close>

theorem deliveryTime_only_required:
  "errorsAt (Key ''deliveryTime'') (OrderSchema (plainValues v)) =
     (if deliveryTime v = []
      then [ValidationError (Key ''deliveryTime'') YupRequired (Message (ascii ''Required''))]
      else []) \<and>
   errorsAt (Key ''deliveryTime'') (validateYupSchema v) =
     (if deliveryTime v = []
      then [ValidationError (Key ''deliveryTime'') YupRequired (Message (ascii ''Required''))]
      else [])"
proof (intro conjI)
  have schema: "errorsAt (Key ''deliveryTime'') (OrderSchema x) =
      stringSchema [required_string (ascii ''Required'')] (Key ''deliveryTime'') (deliveryTime x)"
    for x
    by (rule OrderSchema_deliveryTime)
  show "errorsAt (Key ''deliveryTime'') (OrderSchema (plainValues v)) =
     (if deliveryTime v = []
      then [ValidationError (Key ''deliveryTime'') YupRequired (Message (ascii ''Required''))]
      else [])"
    by (simp add: schema stringSchema_def)
  show "errorsAt (Key ''deliveryTime'') (validateYupSchema v) =
     (if deliveryTime v = []
      then [ValidationError (Key ''deliveryTime'') YupRequired (Message (ascii ''Required''))]
      else [])"
    by (simp add: validateYupSchema_def schema stringSchema_def emptyToUndefined_def)
qed

text \<open>
  C6, as stated, fails: \<open>midnight\<close> is not empty and not one of the three values, and
  values that hold it pass the schema without any error.
\<close>

theorem deliveryTime_midnight_accepted:
  "deliveryTime midnightValues = ascii ''midnight'' \<and>
   ascii ''midnight'' \<noteq> [] \<and>
   ascii ''midnight'' \<notin> set [ascii ''morning'', ascii ''afternoon'', ascii ''evening''] \<and>
   OrderSchema (plainValues midnightValues) = [] \<and>
   validateYupSchema midnightValues = []"
  by code_simp

lemma restrictions_through_Formik:
  "errorsAt (Index ''restrictions'' i) (validateYupSchema v) =
     (if i < length (restrictions v) \<and> restrictions v ! i \<notin> set allowedRestrictions \<and>
         restrictions v ! i \<noteq> []
      then [ValidationError (Index ''restrictions'' i) YupOneOf DefaultMessage] else [])"
  by (simp add: validateYupSchema_def OrderSchema_restrictions stringSchema_def
      emptyToUndefined_def)

text \<open>
  C7. The schema accepts \<open>restrictions\<close> when every element is one of \<open>vegan\<close>,
  \<open>gluten-free\<close>, \<open>nut-free\<close> (the empty list among them): no error at the field nor at any
  element. An element that is none of the three has the \<open>oneOf\<close> error at its index, and
  validation fails. Formik's validation judges every element that is not the empty string
  as the schema does (an empty string reaches the schema as \<open>undefined\<close>).
\<close>

theorem restrictions_subset_accepted:
  "(set (restrictions v) \<subseteq> set allowedRestrictions \<longrightarrow>
      errorsAt (Key ''restrictions'') (OrderSchema (plainValues v)) = [] \<and>
      (\<forall>i. errorsAt (Index ''restrictions'' i) (OrderSchema (plainValues v)) = [])) \<and>
   (i < length (restrictions v) \<and> restrictions v ! i \<notin> set allowedRestrictions \<longrightarrow>
      errorsAt (Index ''restrictions'' i) (OrderSchema (plainValues v)) =
        [ValidationError (Index ''restrictions'' i) YupOneOf DefaultMessage] \<and>
      OrderSchema (plainValues v) \<noteq> []) \<and>
   (restrictions v ! i \<noteq> [] \<longrightarrow>
      errorsAt (Index ''restrictions'' i) (validateYupSchema v) =
      errorsAt (Index ''restrictions'' i) (OrderSchema (plainValues v)))"
proof (intro conjI impI allI)
  assume sub: "set (restrictions v) \<subseteq> set allowedRestrictions"
  show "errorsAt (Key ''restrictions'') (OrderSchema (plainValues v)) = []"
    by (rule restrictions_Key)
  fix j
  from sub have "j < length (restrictions v) \<Longrightarrow> restrictions v ! j \<in> set allowedRestrictions"
    using nth_mem by blast
  then show "errorsAt (Index ''restrictions'' j) (OrderSchema (plainValues v)) = []"
    by (auto simp add: restrictions_errors)
next
  assume bad: "i < length (restrictions v) \<and> restrictions v ! i \<notin> set allowedRestrictions"
  then show e: "errorsAt (Index ''restrictions'' i) (OrderSchema (plainValues v)) =
        [ValidationError (Index ''restrictions'' i) YupOneOf DefaultMessage]"
    by (simp add: restrictions_errors)
  show "OrderSchema (plainValues v) \<noteq> []"
    by (rule errorsAt_nonempty[of "Index ''restrictions'' i"]) (simp add: e)
next
  assume "restrictions v ! i \<noteq> []"
  then show "errorsAt (Index ''restrictions'' i) (validateYupSchema v) =
      errorsAt (Index ''restrictions'' i) (OrderSchema (plainValues v))"
    by (simp add: restrictions_through_Formik restrictions_errors)
qed

theorem restrictions_subset_accepted_witness:
  "set (restrictions (initialFormValues\<lparr>restrictions := [ascii ''nut-free'', ascii ''vegan'']\<rparr>))
      \<subseteq> set allowedRestrictions \<and>
   (\<forall>i. errorsAt (Index ''restrictions'' i)
      (OrderSchema (plainValues
        (initialFormValues\<lparr>restrictions := [ascii ''nut-free'', ascii ''vegan'']\<rparr>))) = []) \<and>
   set (restrictions initialFormValues) \<subseteq> set allowedRestrictions \<and>
   (\<forall>i. errorsAt (Index ''restrictions'' i) (OrderSchema (plainValues initialFormValues)) = []) \<and>
   (1::nat) < length (restrictions (initialFormValues\<lparr>restrictions := [ascii ''vegan'', ascii ''kosher'']\<rparr>)) \<and>
   restrictions (initialFormValues\<lparr>restrictions := [ascii ''vegan'', ascii ''kosher'']\<rparr>) ! 1
      \<notin> set allowedRestrictions \<and>
   OrderSchema (plainValues
      (initialFormValues\<lparr>restrictions := [ascii ''vegan'', ascii ''kosher'']\<rparr>)) \<noteq> [] \<and>
   restrictions (initialFormValues\<lparr>restrictions := [ascii ''vegan'', ascii ''kosher'']\<rparr>) ! 1
      \<noteq> [] \<and>
   errorsAt (Index ''restrictions'' 1)
     (validateYupSchema (initialFormValues\<lparr>restrictions := [ascii ''vegan'', ascii ''kosher'']\<rparr>)) =
     [ValidationError (Index ''restrictions'' 1) YupOneOf DefaultMessage]"
  using restrictions_subset_accepted
      [of "initialFormValues\<lparr>restrictions := [ascii ''nut-free'', ascii ''vegan'']\<rparr>" 0]
    restrictions_subset_accepted [of initialFormValues 0]
    restrictions_subset_accepted
      [of "initialFormValues\<lparr>restrictions := [ascii ''vegan'', ascii ''kosher'']\<rparr>" 1]
  by (simp add: allowedRestrictions_def ascii_def initialFormValues_def)

text \<open>
  C8. The schema accepts a \<open>message\<close> of at most 200 code units and rejects every longer
  one, so one of 201, with the \<open>max\<close> error; Formik's validation agrees.
\<close>

theorem message_at_most_200:
  "errorsAt (Key ''message'') (OrderSchema (plainValues v)) =
     (if length (message v) \<le> 200 then []
      else [ValidationError (Key ''message'') YupMax (Message (ascii ''Too long!''))]) \<and>
   errorsAt (Key ''message'') (validateYupSchema v) =
     (if length (message v) \<le> 200 then []
      else [ValidationError (Key ''message'') YupMax (Message (ascii ''Too long!''))])"
proof (intro conjI)
  have schema: "errorsAt (Key ''message'') (OrderSchema x) =
      stringSchema [max_length 200 (ascii ''Too long!'')] (Key ''message'') (message x)" for x
    by (rule OrderSchema_message)
  show "errorsAt (Key ''message'') (OrderSchema (plainValues v)) =
     (if length (message v) \<le> 200 then []
      else [ValidationError (Key ''message'') YupMax (Message (ascii ''Too long!''))])"
    by (simp add: schema stringSchema_def)
  show "errorsAt (Key ''message'') (validateYupSchema v) =
     (if length (message v) \<le> 200 then []
      else [ValidationError (Key ''message'') YupMax (Message (ascii ''Too long!''))])"
    by (auto simp add: validateYupSchema_def schema stringSchema_def emptyToUndefined_def)
qed

subsection \<open>A category that is not in the table\<close>

text \<open>
  C9, as the code has it. For a non-empty \<open>category\<close> that is not a key of the table the
  effect writes the result of the lookup, never 0. The result is \<open>undefined\<close> when the
  category is not a property name of \<open>Object.prototype\<close> either; validation then reports
  \<open>pricePerKg\<close> as required. For a name of \<open>Object.prototype\<close> the lookup gives the member
  inherited from it. In both cases validation has no error for \<open>category\<close>.
\<close>

theorem lookup_of_unknown_category:
  assumes "category v \<noteq> []" and "map_of categoryPrices (category v) = None"
  shows "pricePerKg (PriceCalculator_effect v) = getProperty categoryPrices (category v) \<and>
         getProperty categoryPrices (category v) \<noteq> Number (Finite 0) \<and>
         (category v \<notin> set ObjectPrototype \<longrightarrow>
            pricePerKg (PriceCalculator_effect v) = Undefined \<and>
            errorsAt (Key ''pricePerKg'') (validateYupSchema (PriceCalculator_effect v)) =
              [ValidationError (Key ''pricePerKg'') YupRequired (Message (ascii ''Required''))]) \<and>
         (category v \<in> set ObjectPrototype \<longrightarrow>
            getProperty categoryPrices (category v) = Inherited (category v)) \<and>
         errorsAt (Key ''category'') (validateYupSchema (PriceCalculator_effect v)) = []"
proof -
  have w: "PriceCalculator_effect v = v\<lparr>pricePerKg := getProperty categoryPrices (category v)\<rparr>"
    using assms(1) by (simp add: PriceCalculator_effect_def)
  have c: "errorsAt (Key ''category'') (validateYupSchema (PriceCalculator_effect v)) = []"
    using assms(1) by (simp add: category_errors w)
  have u: "errorsAt (Key ''pricePerKg'') (validateYupSchema (PriceCalculator_effect v)) =
      [ValidationError (Key ''pricePerKg'') YupRequired (Message (ascii ''Required''))]"
    if "category v \<notin> set ObjectPrototype"
    using that assms(2)
    by (simp add: w getProperty_def validateYupSchema_def OrderSchema_pricePerKg
        numberSchema_def)
  from assms(2) c u show ?thesis
    by (simp add: w getProperty_def)
qed

theorem lookup_of_unknown_category_witness:
  "category (initialFormValues\<lparr>category := ascii ''Wish''\<rparr>) \<noteq> [] \<and>
   map_of categoryPrices (category (initialFormValues\<lparr>category := ascii ''Wish''\<rparr>)) = None \<and>
   category (initialFormValues\<lparr>category := ascii ''Wish''\<rparr>) \<notin> set ObjectPrototype \<and>
   pricePerKg (PriceCalculator_effect (initialFormValues\<lparr>category := ascii ''Wish''\<rparr>)) =
     Undefined \<and>
   category (initialFormValues\<lparr>category := ascii ''valueOf''\<rparr>) \<noteq> [] \<and>
   map_of categoryPrices (category (initialFormValues\<lparr>category := ascii ''valueOf''\<rparr>)) = None \<and>
   category (initialFormValues\<lparr>category := ascii ''valueOf''\<rparr>) \<in> set ObjectPrototype \<and>
   getProperty categoryPrices (category (initialFormValues\<lparr>category := ascii ''valueOf''\<rparr>)) =
     Inherited (ascii ''valueOf'')"
proof -
  have 1: "category (initialFormValues\<lparr>category := ascii ''Wish''\<rparr>) \<noteq> []"
    and 2: "map_of categoryPrices (category (initialFormValues\<lparr>category := ascii ''Wish''\<rparr>)) = None"
    and 3: "category (initialFormValues\<lparr>category := ascii ''Wish''\<rparr>) \<notin> set ObjectPrototype"
    and 4: "category (initialFormValues\<lparr>category := ascii ''valueOf''\<rparr>) \<noteq> []"
    and 5: "map_of categoryPrices (category (initialFormValues\<lparr>category := ascii ''valueOf''\<rparr>)) = None"
    and 6: "category (initialFormValues\<lparr>category := ascii ''valueOf''\<rparr>) \<in> set ObjectPrototype"
    by (simp_all add: categoryPrices_def ObjectPrototype_def ascii_def)
  have 7: "category (initialFormValues\<lparr>category := ascii ''valueOf''\<rparr>) = ascii ''valueOf''"
    by simp
  from lookup_of_unknown_category[OF 1 2] lookup_of_unknown_category[OF 4 5] 1 2 3 4 5 6 7
  show ?thesis by metis
qed

text \<open>
  C9, as stated, fails: \<open>toString\<close> and \<open>__proto__\<close> are not empty and not keys of the
  table, and the lookup does not give \<open>undefined\<close> for them; the effect writes the member.
\<close>

theorem inherited_member_not_undefined:
  "ascii ''toString'' \<noteq> [] \<and>
   map_of categoryPrices (ascii ''toString'') = None \<and>
   getProperty categoryPrices (ascii ''toString'') = Inherited (ascii ''toString'') \<and>
   ascii ''__proto__'' \<noteq> [] \<and>
   map_of categoryPrices (ascii ''__proto__'') = None \<and>
   pricePerKg (PriceCalculator_effect (initialFormValues\<lparr>category := ascii ''__proto__''\<rparr>)) =
     Inherited (ascii ''__proto__'')"
  by (simp add: PriceCalculator_effect_def getProperty_def categoryPrices_def ascii_def
      ObjectPrototype_def)

subsection \<open>Submission\<close>

lemma console_flushEffects: "console (flushEffects f) = console f"
  by (simp add: flushEffects_def)

lemma effect_initialFormValues: "PriceCalculator_effect initialFormValues = initialFormValues"
  by (simp add: PriceCalculator_effect_def initialFormValues_def)

lemma formValues_flushEffects_initial:
  "formValues f = initialFormValues \<Longrightarrow> formValues (flushEffects f) = initialFormValues"
  by (simp add: flushEffects_def effect_initialFormValues)

lemma run_snoc: "run (es @ [e]) = step (run es) e"
  by (simp add: run_def)

lemma empty_category_blocks: "category (formValues f) = [] \<Longrightarrow> submitForm f = f"
  by (rule blocked[of "Key ''category''"]) (simp add: category_errors)

lemma step_without_category:
  assumes "category (formValues f) = []" and "\<forall>c. e \<noteq> ChangeCategory c"
  shows "category (formValues (step f e)) = [] \<and> console (step f e) = console f"
proof (cases "e = Submit")
  case True
  with assms(1) show ?thesis
    by (simp add: empty_category_blocks category_flushEffects console_flushEffects)
next
  case False
  then have "step f e = flushEffects (f\<lparr>formValues := handleChange e (formValues f)\<rparr>)"
    by (cases e) simp_all
  with assms show ?thesis
    by (simp add: category_flushEffects console_flushEffects handleChange_category
        split: event.splits)
qed

lemma foldl_without_category:
  assumes "\<forall>c. ChangeCategory c \<notin> set es" and "category (formValues f) = []"
  shows "category (formValues (foldl step f es)) = [] \<and> console (foldl step f es) = console f"
  using assms
proof (induction es arbitrary: f)
  case Nil
  then show ?case by simp
next
  case (Cons e es)
  from Cons.prems have e: "\<forall>c. e \<noteq> ChangeCategory c" and es: "\<forall>c. ChangeCategory c \<notin> set es"
    by auto
  from step_without_category[OF Cons.prems(2) e] Cons.IH[OF es, of "step f e"]
  show ?case by simp
qed

lemma mount_eq: "mount = \<lparr>formValues = initialFormValues, deps = Some [], console = []\<rparr>"
  by (simp add: mount_def flushEffects_def effect_initialFormValues)
    (simp add: initialFormValues_def)

lemma seed_errors:
  "validateYupSchema initialFormValues =
     [ValidationError (Key ''pricePerKg'') YupMin (Message (ascii ''Min 0.1 z'' @ [322])),
      ValidationError (Key ''category'') YupRequired (Message (ascii ''Required''))]"
  "OrderSchema (plainValues initialFormValues) =
     [ValidationError (Key ''pricePerKg'') YupMin (Message (ascii ''Min 0.1 z'' @ [322])),
      ValidationError (Key ''category'') YupRequired (Message (ascii ''Required''))]"
  by code_simp+

text \<open>
  C10. The seed values fail the schema, with exactly two errors: \<open>pricePerKg\<close> is below its
  minimum and \<open>category\<close> is required. So the mounted form is not submitted as it is, a
  form that was submitted is back at the seed values and is not submitted again as it is,
  and as long as no category is chosen nothing is ever submitted.
\<close>

theorem seed_defaults_invalid:
  "validateYupSchema initialFormValues =
     [ValidationError (Key ''pricePerKg'') YupMin (Message (ascii ''Min 0.1 z'' @ [322])),
      ValidationError (Key ''category'') YupRequired (Message (ascii ''Required''))] \<and>
   OrderSchema (plainValues initialFormValues) =
     [ValidationError (Key ''pricePerKg'') YupMin (Message (ascii ''Min 0.1 z'' @ [322])),
      ValidationError (Key ''category'') YupRequired (Message (ascii ''Required''))] \<and>
   formValues mount = initialFormValues \<and>
   step mount Submit = mount \<and>
   (validateYupSchema (formValues f) = [] \<longrightarrow>
      formValues (step f Submit) = initialFormValues \<and>
      submitForm (step f Submit) = step f Submit) \<and>
   ((\<forall>c. ChangeCategory c \<notin> set es) \<longrightarrow> console (run es) = [])"
proof (intro conjI impI)
  show "validateYupSchema initialFormValues =
     [ValidationError (Key ''pricePerKg'') YupMin (Message (ascii ''Min 0.1 z'' @ [322])),
      ValidationError (Key ''category'') YupRequired (Message (ascii ''Required''))]"
    by (rule seed_errors)
  show "OrderSchema (plainValues initialFormValues) =
     [ValidationError (Key ''pricePerKg'') YupMin (Message (ascii ''Min 0.1 z'' @ [322])),
      ValidationError (Key ''category'') YupRequired (Message (ascii ''Required''))]"
    by (rule seed_errors)
  show "formValues mount = initialFormValues"
    by (simp add: mount_eq)
  have "submitForm mount = mount"
    by (rule empty_category_blocks) (simp add: mount_eq initialFormValues_def)
  then show "step mount Submit = mount"
    by (simp add: flushEffects_def) (simp add: mount_eq initialFormValues_def)
next
  assume ok: "validateYupSchema (formValues f) = []"
  then have "formValues (submitForm f) = initialFormValues"
    by (simp add: submitForm_def handleSubmit_def)
  then show v: "formValues (step f Submit) = initialFormValues"
    by (simp add: formValues_flushEffects_initial)
  show "submitForm (step f Submit) = step f Submit"
    by (rule empty_category_blocks) (simp only: v, simp add: initialFormValues_def)
next
  assume "\<forall>c. ChangeCategory c \<notin> set es"
  from foldl_without_category[OF this, of mount] show "console (run es) = []"
    by (simp add: run_def mount_eq initialFormValues_def)
qed

lemma run_annEvents:
  "run annEvents = \<lparr>formValues = annValues, deps = Some (ascii ''Temu''), console = []\<rparr>"
  by code_simp

lemma annValues_valid: "validateYupSchema annValues = []" "OrderSchema (plainValues annValues) = []"
  by code_simp+

lemma total_100: "calculatePrice (Number (Finite 2)) (Number (Finite 50)) = ascii ''100.00''"
  by code_simp

theorem seed_defaults_invalid_witness:
  "validateYupSchema (formValues (run annEvents)) = [] \<and>
   formValues (step (run annEvents) Submit) = initialFormValues \<and>
   submitForm (step (run annEvents) Submit) = step (run annEvents) Submit \<and>
   (\<forall>c. ChangeCategory c \<notin> set [ChangeUsername (ascii ''Ann''), Submit]) \<and>
   console (run [ChangeUsername (ascii ''Ann''), Submit]) = []"
proof -
  have 1: "validateYupSchema (formValues (run annEvents)) = []"
    by (simp add: run_annEvents annValues_valid)
  have 2: "\<forall>c. ChangeCategory c \<notin> set [ChangeUsername (ascii ''Ann''), Submit]"
    by simp
  from seed_defaults_invalid[of "run annEvents" "[ChangeUsername (ascii ''Ann''), Submit]"] 1 2
  show ?thesis by blast
qed

text \<open>
  C4. The example order: after the edits \<open>username = Ann\<close>, \<open>tel = 12345\<close>,
  \<open>email = a@b.com\<close>, \<open>delivery = pickup\<close>, \<open>deliveryTime = morning\<close>, \<open>weight = 2\<close>,
  \<open>category = Temu\<close> the form holds these values with \<open>pricePerKg = 50\<close>, they pass the
  schema, and the submission logs them together with \<open>totalPrice = "100.00"\<close> and leaves
  the form at the seed values.
\<close>

theorem submit_example_order:
  "formValues (run annEvents) = annValues \<and>
   validateYupSchema annValues = [] \<and>
   OrderSchema (plainValues annValues) = [] \<and>
   console (run (annEvents @ [Submit])) =
     [\<lparr>username = ascii ''Ann'', tel = ascii ''12345'', email = ascii ''a@b.com'',
       delivery = ascii ''pickup'', restrictions = [], deliveryTime = ascii ''morning'',
       message = [], weight = Number (Finite 2), pricePerKg = Number (Finite 50),
       category = ascii ''Temu'', totalPrice = ascii ''100.00''\<rparr>] \<and>
   formValues (run (annEvents @ [Submit])) = initialFormValues"
proof (intro conjI)
  show "formValues (run annEvents) = annValues"
    by (simp add: run_annEvents)
  show "validateYupSchema annValues = []" and "OrderSchema (plainValues annValues) = []"
    by (rule annValues_valid)+
  have s: "submitForm (run annEvents) =
      (run annEvents)\<lparr>console := [\<lparr>username = ascii ''Ann'', tel = ascii ''12345'',
         email = ascii ''a@b.com'', delivery = ascii ''pickup'', restrictions = [],
         deliveryTime = ascii ''morning'', message = [], weight = Number (Finite 2),
         pricePerKg = Number (Finite 50), category = ascii ''Temu'',
         totalPrice = ascii ''100.00''\<rparr>],
       formValues := initialFormValues\<rparr>"
    by (simp add: submitForm_def handleSubmit_def run_annEvents annValues_valid)
      (simp add: annValues_def total_100)
  show "console (run (annEvents @ [Submit])) =
     [\<lparr>username = ascii ''Ann'', tel = ascii ''12345'', email = ascii ''a@b.com'',
       delivery = ascii ''pickup'', restrictions = [], deliveryTime = ascii ''morning'',
       message = [], weight = Number (Finite 2), pricePerKg = Number (Finite 50),
       category = ascii ''Temu'', totalPrice = ascii ''100.00''\<rparr>]"
    by (simp add: run_snoc console_flushEffects s)
  show "formValues (run (annEvents @ [Submit])) = initialFormValues"
    by (simp add: run_snoc formValues_flushEffects_initial s)
qed

subsection \<open>The total price\<close>

lemma decimal_small: "n < 10 \<Longrightarrow> decimal n = [48 + nat n]"
  by (simp add: decimal.simps)

lemma decimal_step: "10 \<le> n \<Longrightarrow> decimal n = decimal (n div 10) @ [48 + nat (n mod 10)]"
  by (subst decimal.simps) simp

lemma decimal_nonempty: "decimal n \<noteq> []"
  by (subst decimal.simps) simp

lemma toFixed_two:
  assumes "0 \<le> r" and "r < 10 ^ 21"
  shows "toFixed 2 (Finite r) = twoPlaces (hundredths r)"
proof -
  define n where "n = hundredths r"
  have n0: "0 \<le> n" using assms(1) by (simp add: n_def hundredths_def)
  have nn: "\<lfloor>r * 100 + 1 / 2\<rfloor> = n" by (simp add: n_def hundredths_def mult.commute)
  have tf: "toFixed 2 (Finite r) =
      (let m = decimal n; z = (if length m \<le> 2 then replicate (3 - length m) 48 @ m else m)
       in take (length z - 2) z @ ascii ''.'' @ drop (length z - 2) z)"
    using assms by (simp add: toFixed_def Let_def nn abs_of_nonneg)
  consider "n < 10" | "10 \<le> n" "n < 100" | "100 \<le> n" by linarith
  then have "(let m = decimal n;
                  z = (if length m \<le> 2 then replicate (3 - length m) 48 @ m else m)
              in take (length z - 2) z @ ascii ''.'' @ drop (length z - 2) z) = twoPlaces n"
  proof cases
    case 1
    with n0 show ?thesis
      by (simp add: decimal_small twoPlaces_def numeral_3_eq_3 numeral_2_eq_2)
  next
    case 2
    then have d: "n div 10 < 10" "n div 100 = 0" "n mod 100 = n" by auto
    from 2 show ?thesis
      by (simp add: decimal_step decimal_small d twoPlaces_def)
  next
    case 3
    have "n mod 100 = 10 * (n div 10 mod 10) + n mod 10"
      using zmod_zmult2_eq[of 10 n 10] by simp
    then have "n div 10 mod 10 = n mod 100 div 10" by simp
    with 3 have d: "10 \<le> n div 10" "n div 10 div 10 = n div 100"
        "n div 10 mod 10 = n mod 100 div 10"
      by (simp_all add: zdiv_zmult2_eq[symmetric])
    from 3 have "decimal n =
        decimal (n div 100) @ [48 + nat (n mod 100 div 10), 48 + nat (n mod 10)]"
      by (simp add: decimal_step[of n] decimal_step[of "n div 10"] d)
    then show ?thesis
      by (simp add: twoPlaces_def Let_def decimal_nonempty)
  qed
  with tf show ?thesis by (simp add: n_def)
qed

lemma hundredths_bounds:
  "of_int (hundredths x) \<le> 100 * x + 1 / 2" "100 * x + 1 / 2 < of_int (hundredths x) + 1"
  unfolding hundredths_def by linarith+

lemma hundredths_nearest:
  "\<bar>of_int (hundredths x) / 100 - x\<bar> \<le> \<bar>of_int m / 100 - x\<bar>"
proof -
  define n where "n = hundredths x"
  have lo: "of_int n \<le> 100 * x + 1 / 2" and hi: "100 * x + 1 / 2 < of_int n + 1"
    unfolding n_def by (rule hundredths_bounds)+
  consider "m = n" | "m \<le> n - 1" | "n + 1 \<le> m" by linarith
  then have "\<bar>of_int n - 100 * x\<bar> \<le> \<bar>of_int m - 100 * x\<bar>"
  proof cases
    case 1
    then show ?thesis by simp
  next
    case 2
    then have "(of_int m :: rat) \<le> of_int n - 1"
      by (metis of_int_1 of_int_diff of_int_le_iff)
    with lo hi show ?thesis by linarith
  next
    case 3
    then have "(of_int n :: rat) + 1 \<le> of_int m"
      by (metis of_int_1 of_int_add of_int_le_iff)
    with lo hi show ?thesis by linarith
  qed
  then show ?thesis unfolding n_def by (simp add: abs_if field_simps split: if_splits)
qed

lemma hundredths_tie:
  assumes "\<bar>of_int m / 100 - x\<bar> = \<bar>of_int (hundredths x) / 100 - x\<bar>"
  shows "m \<le> hundredths x"
proof (rule ccontr)
  define n where "n = hundredths x"
  assume "\<not> m \<le> hundredths x"
  then have "n + 1 \<le> m" by (simp add: n_def)
  then have m: "(of_int n :: rat) + 1 \<le> of_int m"
    by (metis of_int_1 of_int_add of_int_le_iff)
  have lo: "of_int n \<le> 100 * x + 1 / 2" and hi: "100 * x + 1 / 2 < of_int n + 1"
    unfolding n_def by (rule hundredths_bounds)+
  from assms have "\<bar>of_int m - 100 * x\<bar> = \<bar>of_int n - 100 * x\<bar>"
    unfolding n_def by (simp add: abs_if field_simps split: if_splits)
  with m lo hi show False by linarith
qed

lemma roundTiesToEven_nonneg: "0 \<le> x \<Longrightarrow> 0 \<le> roundTiesToEven x"
  by (simp add: roundTiesToEven_def Let_def)

lemma fl_nonneg: "0 \<le> x \<Longrightarrow> 0 \<le> fl x"
  by (auto simp add: fl_def Let_def roundTiesToEven_nonneg intro!: mult_nonneg_nonneg)

lemma toDouble_Finite: "toDouble x = Finite r \<Longrightarrow> r = fl x"
  by (simp add: toDouble_def Let_def split: if_splits)

lemma greaterEqual_tenth:
  "greaterEqual w (toDouble (1 / 10)) \<Longrightarrow> (\<exists>a. w = Finite a \<and> 0 < a) \<or> w = Infinity False"
  by (cases w) (auto simp add: tenth)

lemma product_nonneg:
  assumes "greaterEqual w (toDouble (1 / 10))" and "greaterEqual p (toDouble (1 / 10))"
    and "multiply w p = Finite r"
  shows "0 \<le> r"
proof -
  from greaterEqual_tenth[OF assms(1)] greaterEqual_tenth[OF assms(2)] assms(3)
  obtain a b where "w = Finite a" "p = Finite b" "0 < a" "0 < b"
    by (auto split: if_splits)
  with assms(3) have "r = fl (a * b)" by (simp add: toDouble_Finite)
  with \<open>0 < a\<close> \<open>0 < b\<close> show ?thesis by (simp add: fl_nonneg)
qed

text \<open>
  C2, as the code has it. For numbers \<open>w \<ge> 0.1\<close> and \<open>p \<ge> 0.1\<close> whose product, as the
  binary64 multiplication gives it, is a finite \<open>r\<close> below \<open>10\<^sup>2\<^sup>1\<close>, \<open>calculatePrice\<close> is \<open>r\<close>
  rounded to hundredths and written with exactly two decimal places: the number of
  hundredths is a nearest one, and the larger one on a tie.
\<close>

theorem calculatePrice_two_places:
  assumes "greaterEqual w (toDouble (1 / 10))" and "greaterEqual p (toDouble (1 / 10))"
    and "multiply w p = Finite r" and "r < 10 ^ 21"
  shows "calculatePrice (Number w) (Number p) = twoPlaces (hundredths r) \<and>
         (\<forall>m. \<bar>of_int (hundredths r) / 100 - r\<bar> \<le> \<bar>of_int m / 100 - r\<bar>) \<and>
         (\<forall>m. \<bar>of_int m / 100 - r\<bar> = \<bar>of_int (hundredths r) / 100 - r\<bar> \<longrightarrow>
              m \<le> hundredths r)"
  using toFixed_two[OF product_nonneg[OF assms(1-3)] assms(4)] assms(3)
  by (simp add: calculatePrice_def hundredths_nearest hundredths_tie)

theorem calculatePrice_two_places_witness:
  "greaterEqual (Finite 2) (toDouble (1 / 10)) \<and>
   greaterEqual (Finite 50) (toDouble (1 / 10)) \<and>
   multiply (Finite 2) (Finite 50) = Finite 100 \<and> (100::rat) < 10 ^ 21 \<and>
   calculatePrice (Number (Finite 2)) (Number (Finite 50)) = twoPlaces (hundredths 100) \<and>
   twoPlaces (hundredths 100) = ascii ''100.00''"
proof -
  have 1: "greaterEqual (Finite 2) (toDouble (1 / 10))" by (simp add: tenth)
  have 2: "greaterEqual (Finite 50) (toDouble (1 / 10))" by (simp add: tenth)
  have 3: "multiply (Finite 2) (Finite 50) = Finite 100" by code_simp
  have 4: "(100::rat) < 10 ^ 21" by simp
  have 5: "twoPlaces (hundredths 100) = ascii ''100.00''" by code_simp
  from calculatePrice_two_places[OF 1 2 3 4] 1 2 3 4 5 show ?thesis by simp
qed

text \<open>
  C2, as stated, fails: the weight \<open>2 \<times> 10\<^sup>1\<^sup>9\<close> and the price 50 of \<open>Temu\<close> are numbers not
  below 0.1, their product is \<open>10\<^sup>2\<^sup>1\<close> exactly, and \<open>calculatePrice\<close> gives \<open>1e+21\<close>, which is
  not the product written with two decimal places.
\<close>

theorem calculatePrice_exponent_notation:
  "greaterEqual (Finite (2 * 10 ^ 19)) (toDouble (1 / 10)) \<and>
   greaterEqual (Finite 50) (toDouble (1 / 10)) \<and>
   toDouble (2 * 10 ^ 19) = Finite (2 * 10 ^ 19) \<and>
   multiply (Finite (2 * 10 ^ 19)) (Finite 50) = Finite (10 ^ 21) \<and>
   calculatePrice (Number (Finite (2 * 10 ^ 19))) (Number (Finite 50)) = ascii ''1e+21'' \<and>
   twoPlaces (hundredths (2 * 10 ^ 19 * 50)) = ascii ''1000000000000000000000.00''"
  by code_simp

text \<open>
  The product that is rounded is the binary64 product, which need not round as the exact
  product of the two numbers does: the number nearest to 0.10625 lies below it, its exact
  product with 20 lies below 2.125 and rounds to 2.12, the binary64 product is 2.125 and
  \<open>calculatePrice\<close> gives 2.13.
\<close>

lemma product_rounded_twice:
  "toDouble (10625 / 100000) = Finite (7656119366529843 / 72057594037927936) \<and>
   multiply (Finite (7656119366529843 / 72057594037927936)) (Finite 20) = Finite (17 / 8) \<and>
   calculatePrice (Number (Finite (7656119366529843 / 72057594037927936))) (Number (Finite 20)) =
     ascii ''2.13'' \<and>
   twoPlaces (hundredths (7656119366529843 / 72057594037927936 * 20)) = ascii ''2.12''"
  by code_simp

end
